theory Spec2Isabelle
  imports Main
begin

section \<open>JavaScript values, strings and the logger\<close>

text \<open>
  The manifest (\<open>package.json\<close>) and the generation request are plain JavaScript objects
  whose properties may hold any value. Numbers are restricted to integers. An absent
  property reads as \<open>Undefined\<close>.
\<close>

datatype jsval =
    Undefined
  | Null
  | Bool bool
  | Num int
  | Str string
  | Arr "jsval list"
  | Obj "(string \<times> jsval) list"

text \<open>The \<open>typeof\<close> operator: \<open>null\<close> and arrays are of type \<open>object\<close>.\<close>

fun typeof :: "jsval \<Rightarrow> string" where
  "typeof Undefined = ''undefined''"
| "typeof Null = ''object''"
| "typeof (Bool b) = ''boolean''"
| "typeof (Num n) = ''number''"
| "typeof (Str s) = ''string''"
| "typeof (Arr xs) = ''object''"
| "typeof (Obj kvs) = ''object''"

text \<open>Truthiness, as tested by \<open>if (!packageObj)\<close>.\<close>

fun truthy :: "jsval \<Rightarrow> bool" where
  "truthy Undefined = False"
| "truthy Null = False"
| "truthy (Bool b) = b"
| "truthy (Num n) = (n \<noteq> 0)"
| "truthy (Str s) = (s \<noteq> [])"
| "truthy (Arr xs) = True"
| "truthy (Obj kvs) = True"

text \<open>Values that a \<open>Set\<close> compares by content rather than by reference.\<close>

fun primitive :: "jsval \<Rightarrow> bool" where
  "primitive (Arr xs) = False"
| "primitive (Obj kvs) = False"
| "primitive v = True"

text \<open>
  Decimal rendering of an integer, which is how JavaScript prints an integer of magnitude
  below \<open>10^21\<close>.
\<close>

fun digits :: "nat \<Rightarrow> string" where
  "digits n = (if n < 10 then [''0123456789'' ! n]
               else digits (n div 10) @ [''0123456789'' ! (n mod 10)])"

definition int_toString :: "int \<Rightarrow> string" where
  "int_toString i = (if i < 0 then ''-'' @ digits (nat (- i)) else digits (nat i))"

fun join :: "string \<Rightarrow> string list \<Rightarrow> string" where
  "join sep [] = []"
| "join sep [x] = x"
| "join sep (x # y # ys) = x @ sep @ join sep (y # ys)"

text \<open>
  String conversion as performed by a template literal \<open>`${v}`\<close>. An array joins its
  elements with a comma, \<open>null\<close> and \<open>undefined\<close> elements giving the empty string.
\<close>

fun toString :: "jsval \<Rightarrow> string" where
  "toString Undefined = ''undefined''"
| "toString Null = ''null''"
| "toString (Bool b) = (if b then ''true'' else ''false'')"
| "toString (Num n) = int_toString n"
| "toString (Str s) = s"
| "toString (Arr xs) =
     join '','' (map (\<lambda>x. if x = Undefined \<or> x = Null then [] else toString x) xs)"
| "toString (Obj kvs) = ''[object Object]''"

text \<open>\<open>String.prototype.endsWith\<close>.\<close>

definition endsWith :: "string \<Rightarrow> string \<Rightarrow> bool" where
  "endsWith s suf = (length suf \<le> length s \<and> drop (length s - length suf) s = suf)"

text \<open>
  \<open>regexAllowedFiles = /\.(js|mjs|ts|mts)$/\<close> and \<open>regexIsDTSFile = /\.d\.(cts|ts|mts)$/\<close>:
  without the multiline flag \<open>$\<close> matches at the end of the input only, so \<open>test\<close> is a
  test on the suffix.
\<close>

definition regexAllowedFiles_test :: "string \<Rightarrow> bool" where
  "regexAllowedFiles_test s =
     (endsWith s ''.js'' \<or> endsWith s ''.mjs'' \<or> endsWith s ''.ts'' \<or> endsWith s ''.mts'')"

definition regexIsDTSFile_test :: "string \<Rightarrow> bool" where
  "regexIsDTSFile_test s =
     (endsWith s ''.d.cts'' \<or> endsWith s ''.d.ts'' \<or> endsWith s ''.d.mts'')"

text \<open>
  The logger is the diagnostics channel: every function below returns the list of
  messages it emitted, in order, each tagged with its severity.
\<close>

datatype log = LogVerbose string | LogWarn string | LogError string

text \<open>
  A \<open>Set\<close> keeps its members in insertion order; adding a member that is present changes
  nothing. Membership is by content, which is what a \<open>Set\<close> does for primitive values.
\<close>

definition Set_add :: "'a \<Rightarrow> 'a list \<Rightarrow> 'a list" where
  "Set_add x s = (if x \<in> set s then s else s @ [x])"

definition Set_from :: "'a list \<Rightarrow> 'a list" where
  "Set_from xs = fold Set_add xs []"

section \<open>PackageJson: entry points of a manifest\<close>

text \<open>
  Property access on the parsed manifest: \<open>packageObj.exports\<close>, \<open>packageObj.types\<close>,
  \<open>packageObj.typings\<close>.
\<close>

type_synonym jsobject = "string \<rightharpoonup> jsval"

definition property :: "jsobject \<Rightarrow> string \<Rightarrow> jsval" where
  "property obj k = (case obj k of None \<Rightarrow> Undefined | Some v \<Rightarrow> v)"

text \<open>
  The private fields of class \<open>PackageJson\<close>. An export map is a \<open>Map\<close> from export key
  to export data, kept as an association list in insertion order; \<open>None\<close> is the field
  left \<open>undefined\<close>.
\<close>

record 'v PackageJson =
  pj_dirpath :: string
  pj_entryPoints :: "string list"
  pj_exportCondition :: jsval
  pj_exportMap :: "(string \<times> 'v) list option"
  pj_packageFilepath :: string
  pj_packageObj :: jsobject

text \<open>
  What \<open>PackageJson\<close> imports: \<open>path.dirname\<close> and \<open>path.resolve\<close> of \<open>upath\<close>,
  \<open>isDTSFile\<close> of \<open>../validation.js\<close> and \<open>ExportMapSupport.create\<close> of
  \<open>../system/index.js\<close>. None of them is defined in the source files modelled here, so each is a
  parameter of the model.
\<close>

record 'v pkg_host =
  path_dirname :: "string \<Rightarrow> string"
  path_resolve :: "string \<Rightarrow> string"
  isDTSFile :: "string \<Rightarrow> bool"
  ExportMapSupport_create :: "'v PackageJson \<Rightarrow> (string \<times> 'v) list"

text \<open>\<open>this.#exportMap?.size\<close>, read as a condition.\<close>

definition exportMap_size_truthy :: "(string \<times> 'v) list option \<Rightarrow> bool" where
  "exportMap_size_truthy em = (case em of None \<Rightarrow> False | Some m \<Rightarrow> length m \<noteq> 0)"

text \<open>
  \<open>PackageJson.#process\<close>. The messages that begin with a quote character are written
  with \<open>CHR 0x27\<close> in front.
\<close>

definition process :: "'v pkg_host \<Rightarrow> 'v PackageJson \<Rightarrow> 'v PackageJson \<times> log list" where
  "process host this =
     (if exportMap_size_truthy (pj_exportMap this) then
        (this\<lparr>pj_entryPoints :=
                 fold Set_add (map fst (the (pj_exportMap this))) (pj_entryPoints this)\<rparr>, [])
      else if pj_exportCondition this = Str ''types'' then
        (case property (pj_packageObj this) ''types'' of
           Str types \<Rightarrow>
             (if \<not> isDTSFile host types then
                (this,
                 [LogVerbose ''Loading entry point from package.json 'types' property':'',
                  LogWarn (CHR 0x27 #
                    ''types' property in package.json is not a declaration file: '' @ types)])
              else
                (let resolvedPath = path_resolve host types in
                 (this\<lparr>pj_entryPoints :=
                          Set_add (path_resolve host resolvedPath) (pj_entryPoints this)\<rparr>,
                  [LogVerbose ''Loading entry point from package.json 'types' property':'',
                   LogVerbose resolvedPath])))
         | _ \<Rightarrow>
           (case property (pj_packageObj this) ''typings'' of
              Str typings \<Rightarrow>
                (if \<not> isDTSFile host typings then
                   (this,
                    [LogVerbose ''Loading entry point from package.json 'typings' property':'',
                     LogWarn (CHR 0x27 #
                       ''typings' property in package.json is not a declaration file: '' @ typings)])
                 else
                   (let resolvedPath = path_resolve host typings in
                    (this\<lparr>pj_entryPoints :=
                             Set_add (path_resolve host resolvedPath) (pj_entryPoints this)\<rparr>,
                     [LogVerbose ''Loading entry point from package.json 'typings' property':'',
                      LogVerbose resolvedPath])))
            | _ \<Rightarrow> (this, [])))
      else (this, []))"

text \<open>
  The constructor of \<open>PackageJson\<close> up to its last statement: the fields are assigned and
  the export map is created when \<open>typeof packageObj.exports\<close> is \<open>object\<close>.
\<close>

definition PackageJson_init ::
  "'v pkg_host \<Rightarrow> jsobject \<Rightarrow> string \<Rightarrow> jsval \<Rightarrow> 'v PackageJson \<times> log list" where
  "PackageJson_init host packageObj filepath exportCondition =
     (let this = \<lparr>pj_dirpath = path_dirname host filepath,
                   pj_entryPoints = [],
                   pj_exportCondition = exportCondition,
                   pj_exportMap = None,
                   pj_packageFilepath = filepath,
                   pj_packageObj = packageObj\<rparr>
      in if typeof (property packageObj ''exports'') \<noteq> ''object'' then
           (this, [LogVerbose ''No 'exports' conditions found in 'package.json'.''])
         else
           (this\<lparr>pj_exportMap := Some (ExportMapSupport_create host this)\<rparr>, []))"

text \<open>The whole constructor: the last statement is \<open>this.#process()\<close>.\<close>

definition PackageJson_new ::
  "'v pkg_host \<Rightarrow> jsobject \<Rightarrow> string \<Rightarrow> jsval \<Rightarrow> 'v PackageJson \<times> log list" where
  "PackageJson_new host packageObj filepath exportCondition =
     (let (this, logs) = PackageJson_init host packageObj filepath exportCondition;
          (this, logs') = process host this
      in (this, logs @ logs'))"

text \<open>The getter \<open>entryPoints\<close> of a constructed \<open>PackageJson\<close>.\<close>

definition entryPoints ::
  "'v pkg_host \<Rightarrow> jsobject \<Rightarrow> string \<Rightarrow> jsval \<Rightarrow> string list" where
  "entryPoints host packageObj filepath exportCondition =
     pj_entryPoints (fst (PackageJson_new host packageObj filepath exportCondition))"

section \<open>Validation of compiler options\<close>

text \<open>
  \<open>validateCompilerOptions\<close> delegates to \<open>ts.convertCompilerOptionsFromJson\<close>, which
  returns the converted options together with a list of diagnostics, and renders each
  diagnostic with \<open>ts.flattenDiagnosticMessageText\<close>. Both belong to the TypeScript
  compiler and are parameters here, as is the working directory \<open>process.cwd()\<close>.
\<close>

record 'm Diagnostic =
  messageText :: 'm

record ('o, 'm) converted =
  options :: 'o
  errors :: "'m Diagnostic list"

record ('o, 'm) ts_host =
  ts_cwd :: string
  convertCompilerOptionsFromJson :: "jsval \<Rightarrow> string \<Rightarrow> ('o, 'm) converted"
  flattenDiagnosticMessageText :: "'m \<Rightarrow> string \<Rightarrow> string"

text \<open>The result is \<open>None\<close> for \<open>return void 0\<close>.\<close>

definition validateCompilerOptions ::
  "('o, 'm) ts_host \<Rightarrow> jsval \<Rightarrow> 'o option \<times> log list" where
  "validateCompilerOptions host compilerOptions =
     (let basePath = ts_cwd host;
          r = convertCompilerOptionsFromJson host compilerOptions basePath
      in if length (errors r) > 0 then
           (None,
            map (\<lambda>err. LogError (''[TS] '' @
                   flattenDiagnosticMessageText host (messageText err) [CHR 0x0A]))
                (errors r))
         else (Some (options r), []))"

section \<open>Validation of the generation request\<close>

text \<open>
  The fields of the request that \<open>validateConfig\<close> reads or writes; the field
  \<open>output\<close> is called \<open>outputDir\<close> here.
\<close>

record GenerateConfig =
  dmtNavStyle :: jsval
  exportCondition :: jsval
  outputDir :: jsval
  packageName :: jsval
  path :: jsval
  tsconfigPath :: jsval
  typedocOptions :: jsval
  typedocPath :: jsval
  linkPlugins :: jsval

text \<open>The object returned by \<open>getPackageWithPath\<close>, of which two properties are read.\<close>

record pkg_lookup =
  packageObj :: jsval
  filepath :: string

text \<open>
  What \<open>validateConfig\<close> takes from outside: \<open>isFile\<close> of \<open>@typhonjs-utils/file-util\<close>,
  \<open>isObject\<close> of \<open>@typhonjs-utils/object\<close>, \<open>getPackageWithPath\<close> of
  \<open>@typhonjs-utils/package-json\<close> (called with \<open>filepath\<close> and \<open>basepath\<close>),
  \<open>path.toUnix\<close> of \<open>upath\<close>, \<open>process.cwd()\<close>, and the plugin registry \<open>linkPluginMap\<close>
  of \<open>./typedoc.js\<close>, a \<open>Map\<close> from plugin name to module identifier that is not among
  the source files modelled here.
\<close>

record cfg_host =
  isFile :: "jsval \<Rightarrow> bool"
  isObject :: "jsval \<Rightarrow> bool"
  getPackageWithPath :: "string \<Rightarrow> string \<Rightarrow> pkg_lookup"
  path_toUnix :: "string \<Rightarrow> string"
  process_cwd :: string
  linkPluginMap :: "string \<rightharpoonup> string"

text \<open>
  \<open>isIterable\<close> of \<open>@typhonjs-utils/object\<close> accepts the non-null objects that carry
  \<open>Symbol.iterator\<close>; among the values of \<open>jsval\<close> these are the arrays. \<open>Array.from\<close>
  of an array is the list of its elements.
\<close>

fun isIterable :: "jsval \<Rightarrow> bool" where
  "isIterable (Arr xs) = True"
| "isIterable v = False"

fun Array_from :: "jsval \<Rightarrow> jsval list" where
  "Array_from (Arr xs) = xs"
| "Array_from v = []"

text \<open>
  \<open>linkPluginMap.has(entry)\<close> and \<open>linkPluginMap.get(entry)\<close> in one lookup: the keys of
  the registry are strings, so no other value is found.
\<close>

fun Map_lookup :: "(string \<rightharpoonup> string) \<Rightarrow> jsval \<Rightarrow> string option" where
  "Map_lookup m (Str s) = m s"
| "Map_lookup m v = None"

text \<open>
  The loop \<open>for (const entry of entries)\<close> with its two accumulators, the array
  \<open>plugins\<close> and the messages logged so far.
\<close>

fun linkPlugins_loop ::
  "(string \<rightharpoonup> string) \<Rightarrow> jsval list \<Rightarrow> string list \<Rightarrow> log list \<Rightarrow> string list \<times> log list" where
  "linkPlugins_loop lpm [] plugins logs = (plugins, logs)"
| "linkPlugins_loop lpm (entry # entries) plugins logs =
     (case Map_lookup lpm entry of
        None \<Rightarrow>
          linkPlugins_loop lpm entries plugins
            (logs @ [LogWarn (''API Link warning: Unknown API link '' @ [CHR 0x27] @
                              toString entry @ [CHR 0x27] @ ''.'')])
      | Some module \<Rightarrow>
          linkPlugins_loop lpm entries (plugins @ [module])
            (logs @ [LogVerbose (''Adding API link plugin '' @ [CHR 0x27] @
                                 toString entry @ [CHR 0x27] @ '': '' @ module)]))"

text \<open>
  The \<open>path\<close> section of \<open>validateConfig\<close> (\<open>if (config.path !== void 0) ... else ...\<close>):
  \<open>Inl\<close> carries the error logged before \<open>return false\<close>, \<open>Inr\<close> the request as it
  stands when the section is left.
\<close>

definition validateConfig_path :: "cfg_host \<Rightarrow> GenerateConfig \<Rightarrow> log + GenerateConfig" where
  "validateConfig_path host config =
     (if path config \<noteq> Undefined then
        (case path config of
           Str p \<Rightarrow>
             (let unixPath = path_toUnix host p in
              if \<not> isFile host (Str unixPath) then
                Inl (LogError (''Error: 'path' is not a file; '' @ unixPath))
              else if \<not> (regexIsDTSFile_test unixPath \<or> regexAllowedFiles_test unixPath \<or>
                          endsWith unixPath ''package.json'') then
                Inl (LogError
                  (''Error: 'path' is not an allowed entry point or 'package.json' file; '' @
                   unixPath))
              else Inr config)
         | _ \<Rightarrow> Inl (LogError ''Error: 'path' must be a string.''))
      else
        (let cwd = process_cwd host;
             r = getPackageWithPath host cwd cwd
         in if \<not> truthy (packageObj r) then
              Inl (LogError (''No 'package.json' found in: '' @ path_toUnix host cwd))
            else Inr (config\<lparr>path := Str (path_toUnix host (filepath r))\<rparr>)))"

text \<open>
  The \<open>linkPlugins\<close> section of \<open>validateConfig\<close>: \<open>Inl\<close> carries the error logged before
  \<open>return false\<close>, \<open>Inr\<close> the request and the messages logged when the section is left.
\<close>

definition validateConfig_linkPlugins ::
  "cfg_host \<Rightarrow> GenerateConfig \<Rightarrow> log + GenerateConfig \<times> log list" where
  "validateConfig_linkPlugins host config =
     (if linkPlugins config \<noteq> Undefined then
        (if \<not> isIterable (linkPlugins config) then
           Inl (LogError ''Error: 'linkPlugins' must be an iterable list.'')
         else
           (let entries = Set_from (Array_from (linkPlugins config)) in
            if Str ''dom'' \<in> set entries \<and> Str ''worker'' \<in> set entries then
              Inl (LogError (''API link error: You may only include either 'dom' or 'worker' '' @
                             ''for the DOM API or Web Worker API.''))
            else
              (let (plugins, logs) = linkPlugins_loop (linkPluginMap host) entries [] []
               in Inr (config\<lparr>linkPlugins := Arr (map Str plugins)\<rparr>, logs))))
      else Inr (config, []))"

text \<open>
  The four checks at the head of \<open>validateConfig\<close> (\<open>dmtNavStyle\<close>, \<open>exportCondition\<close>,
  \<open>output\<close>, \<open>packageName\<close>): \<open>Some\<close> carries the error logged before \<open>return false\<close>,
  \<open>None\<close> means that all four pass.
\<close>

definition validateConfig_fields :: "GenerateConfig \<Rightarrow> log option" where
  "validateConfig_fields config =
     (if dmtNavStyle config \<noteq> Undefined \<and> dmtNavStyle config \<noteq> Str ''compact'' \<and>
         dmtNavStyle config \<noteq> Str ''flat'' then
        Some (LogError ''Error: 'dmtNavStyle' must be 'compact' or 'flat'.'')
      else if typeof (exportCondition config) \<noteq> ''string'' then
        Some (LogError ''Error: 'exportCondition' must be a string.'')
      else if typeof (outputDir config) \<noteq> ''string'' then
        Some (LogError ''Error: 'output' must be a string.'')
      else if packageName config \<noteq> Undefined \<and> typeof (packageName config) \<noteq> ''string'' then
        Some (LogError ''Error: 'packageName' must be a string.'')
      else None)"

text \<open>
  The three checks between the \<open>path\<close> section and the \<open>linkPlugins\<close> section
  (\<open>tsconfigPath\<close>, \<open>typedocOptions\<close>, \<open>typedocPath\<close>), in the same convention.
\<close>

definition validateConfig_files :: "cfg_host \<Rightarrow> GenerateConfig \<Rightarrow> log option" where
  "validateConfig_files host config =
     (if tsconfigPath config \<noteq> Undefined \<and> \<not> isFile host (tsconfigPath config) then
        Some (LogError (''Error: 'tsconfigPath' is not a file; '' @
                        toString (tsconfigPath config)))
      else if typedocOptions config \<noteq> Undefined \<and> \<not> isObject host (typedocOptions config) then
        Some (LogError ''Error: 'typedocOptions' is not an object.'')
      else if typedocPath config \<noteq> Undefined \<and> \<not> isFile host (typedocPath config) then
        Some (LogError (''Error: 'typedocPath' is not a file; '' @
                        toString (typedocPath config)))
      else None)"

text \<open>
  \<open>validateConfig\<close>: the four sections in the order of the source, the first error
  ending the run. The request object is mutated in place, so the result is the returned
  boolean together with the request as the caller finds it afterwards and the messages
  logged.
\<close>

definition validateConfig :: "cfg_host \<Rightarrow> GenerateConfig \<Rightarrow> bool \<times> GenerateConfig \<times> log list" where
  "validateConfig host config =
     (case validateConfig_fields config of
        Some err \<Rightarrow> (False, config, [err])
      | None \<Rightarrow>
     (case validateConfig_path host config of
        Inl err \<Rightarrow> (False, config, [err])
      | Inr config \<Rightarrow>
     (case validateConfig_files host config of
        Some err \<Rightarrow> (False, config, [err])
      | None \<Rightarrow>
     (case validateConfig_linkPlugins host config of
        Inl err \<Rightarrow> (False, config, [err])
      | Inr (config, logs) \<Rightarrow> (True, config, logs)))))"

section \<open>A concrete host\<close>

text \<open>
  The theorems below hold for every host. To evaluate the model on concrete manifests a
  host is fixed here: paths are POSIX paths without \<open>.\<close> and \<open>..\<close> segments other than a
  leading \<open>./\<close>, the working directory is \<open>/pkg\<close>, and no export map is ever created.
\<close>

definition posix_dirname :: "string \<Rightarrow> string" where
  "posix_dirname p = rev (tl (dropWhile (\<lambda>c. c \<noteq> CHR ''/'') (rev p)))"

definition posix_resolve :: "string \<Rightarrow> string \<Rightarrow> string" where
  "posix_resolve cwd p =
     (if take 1 p = ''/'' then p
      else if take 2 p = ''./'' then cwd @ ''/'' @ drop 2 p
      else cwd @ ''/'' @ p)"

text \<open>
  Modelled from the spec: \<open>isDTSFile\<close> of \<open>validation.js\<close> is imported by \<open>PackageJson\<close>
  but is not among the source files modelled here; a declaration file "must match a
  recognized TypeScript declaration extension", which is what \<open>regexIsDTSFile\<close> of the
  same file tests.
\<close>

definition isDTSFile_model :: "string \<Rightarrow> bool" where
  "isDTSFile_model p = regexIsDTSFile_test p"

definition sample_pkg_host :: "unit pkg_host" where
  "sample_pkg_host =
     \<lparr>path_dirname = posix_dirname,
      path_resolve = posix_resolve ''/pkg'',
      isDTSFile = isDTSFile_model,
      ExportMapSupport_create = (\<lambda>this. [])\<rparr>"

text \<open>
  A TypeScript host for concrete evaluation: every property of the compiler options
  other than \<open>strict\<close> and \<open>target\<close> is reported by one diagnostic, and a message text is
  its own flattening.
\<close>

definition sample_ts_host :: "(jsval, string) ts_host" where
  "sample_ts_host =
     \<lparr>ts_cwd = ''/pkg'',
      convertCompilerOptionsFromJson = (\<lambda>compilerOptions basePath.
        case compilerOptions of
          Obj kvs \<Rightarrow>
            \<lparr>options = Obj (filter (\<lambda>kv. fst kv \<in> {''strict'', ''target''}) kvs),
             errors = map (\<lambda>kv. \<lparr>messageText = ''Unknown compiler option '' @ fst kv\<rparr>)
                        (filter (\<lambda>kv. fst kv \<notin> {''strict'', ''target''}) kvs)\<rparr>
        | _ \<Rightarrow> \<lparr>options = Obj [], errors = []\<rparr>),
      flattenDiagnosticMessageText = (\<lambda>messageText newLine. messageText)\<rparr>"

text \<open>
  Modelled from the spec: the plugin registry \<open>linkPluginMap\<close> of \<open>typedoc.js\<close> is not
  among the source files modelled here. Each entry is "looked up in a fixed plugin registry" and
  "translated to [its] backing module identifier"; the plugin names are those of the
  command line help (\<open>dom\<close>, \<open>esm\<close>, \<open>worker\<close>).
\<close>

definition sample_linkPluginMap :: "string \<rightharpoonup> string" where
  "sample_linkPluginMap =
     [''dom'' \<mapsto> ''@typhonjs-typedoc/ts-lib-docs/typedoc/ts-links/dom/2023'',
      ''esm'' \<mapsto> ''@typhonjs-typedoc/ts-lib-docs/typedoc/ts-links/esm/2023'',
      ''worker'' \<mapsto> ''@typhonjs-typedoc/ts-lib-docs/typedoc/ts-links/worker/2023'']"

text \<open>
  A host for \<open>validateConfig\<close> over a given list of existing files: the working directory
  is \<open>/pkg\<close>, a manifest is found when \<open>package.json\<close> exists in the directory searched,
  paths are POSIX paths, which \<open>path.toUnix\<close> leaves unchanged, and \<open>isObject\<close> accepts
  the plain objects.
\<close>

definition sample_cfg_host :: "string list \<Rightarrow> cfg_host" where
  "sample_cfg_host files =
     \<lparr>isFile = (\<lambda>v. case v of Str p \<Rightarrow> p \<in> set files | _ \<Rightarrow> False),
      isObject = (\<lambda>v. case v of Obj kvs \<Rightarrow> True | _ \<Rightarrow> False),
      getPackageWithPath = (\<lambda>dir basepath.
        if dir @ ''/package.json'' \<in> set files
        then \<lparr>packageObj = Obj [(''name'', Str ''pkg'')],
              filepath = dir @ ''/package.json''\<rparr>
        else \<lparr>packageObj = Undefined, filepath = []\<rparr>),
      path_toUnix = (\<lambda>p. p),
      process_cwd = ''/pkg'',
      linkPluginMap = sample_linkPluginMap\<rparr>"

text \<open>A request with the two mandatory strings set and every other field unset.\<close>

definition sample_request :: GenerateConfig where
  "sample_request =
     \<lparr>dmtNavStyle = Undefined, exportCondition = Str ''types'', outputDir = Str ''docs'',
      packageName = Undefined, path = Undefined, tsconfigPath = Undefined,
      typedocOptions = Undefined, typedocPath = Undefined, linkPlugins = Undefined\<rparr>"

section \<open>Properties of PackageJson\<close>

text \<open>The branches of \<open>#process\<close>, one equation each.\<close>

lemma process_types_ok:
  assumes "\<not> exportMap_size_truthy (pj_exportMap this)"
      and "pj_exportCondition this = Str ''types''"
      and "property (pj_packageObj this) ''types'' = Str t"
      and "isDTSFile host t"
  shows "process host this =
     (this\<lparr>pj_entryPoints :=
              Set_add (path_resolve host (path_resolve host t)) (pj_entryPoints this)\<rparr>,
      [LogVerbose ''Loading entry point from package.json 'types' property':'',
       LogVerbose (path_resolve host t)])"
  using assms by (simp add: process_def Let_def)

lemma process_types_bad:
  assumes "\<not> exportMap_size_truthy (pj_exportMap this)"
      and "pj_exportCondition this = Str ''types''"
      and "property (pj_packageObj this) ''types'' = Str t"
      and "\<not> isDTSFile host t"
  shows "process host this =
     (this,
      [LogVerbose ''Loading entry point from package.json 'types' property':'',
       LogWarn (CHR 0x27 # ''types' property in package.json is not a declaration file: '' @ t)])"
  using assms by (simp add: process_def Let_def)

lemma process_other_condition:
  assumes "\<not> exportMap_size_truthy (pj_exportMap this)"
      and "pj_exportCondition this \<noteq> Str ''types''"
  shows "process host this = (this, [])"
  using assms by (simp add: process_def)


lemma case_not_string:
  "typeof v \<noteq> ''string'' \<Longrightarrow>
   (case v of Str s \<Rightarrow> f s | _ \<Rightarrow> g) = g"
  by (cases v) simp_all

lemma process_typings_ok:
  assumes "\<not> exportMap_size_truthy (pj_exportMap this)"
      and "pj_exportCondition this = Str ''types''"
      and "typeof (property (pj_packageObj this) ''types'') \<noteq> ''string''"
      and "property (pj_packageObj this) ''typings'' = Str t"
      and "isDTSFile host t"
  shows "process host this =
     (this\<lparr>pj_entryPoints :=
              Set_add (path_resolve host (path_resolve host t)) (pj_entryPoints this)\<rparr>,
      [LogVerbose ''Loading entry point from package.json 'typings' property':'',
       LogVerbose (path_resolve host t)])"
  using assms by (simp add: process_def Let_def case_not_string)

lemma process_typings_bad:
  assumes "\<not> exportMap_size_truthy (pj_exportMap this)"
      and "pj_exportCondition this = Str ''types''"
      and "typeof (property (pj_packageObj this) ''types'') \<noteq> ''string''"
      and "property (pj_packageObj this) ''typings'' = Str t"
      and "\<not> isDTSFile host t"
  shows "process host this =
     (this,
      [LogVerbose ''Loading entry point from package.json 'typings' property':'',
       LogWarn (CHR 0x27 # ''typings' property in package.json is not a declaration file: '' @ t)])"
  using assms by (simp add: process_def Let_def case_not_string)

lemma process_no_candidate:
  assumes "\<not> exportMap_size_truthy (pj_exportMap this)"
      and "typeof (property (pj_packageObj this) ''types'') \<noteq> ''string''"
      and "typeof (property (pj_packageObj this) ''typings'') \<noteq> ''string''"
  shows "process host this = (this, [])"
  using assms by (simp add: process_def Let_def case_not_string)


lemma typeof_string: "typeof v = ''string'' \<Longrightarrow> \<exists>s. v = Str s"
  by (cases v) simp_all

lemma init_fields:
  "pj_entryPoints (fst (PackageJson_init host obj fp cond)) = []"
  "pj_exportCondition (fst (PackageJson_init host obj fp cond)) = cond"
  "pj_packageObj (fst (PackageJson_init host obj fp cond)) = obj"
  by (simp_all add: PackageJson_init_def Let_def)

lemma init_no_object:
  "typeof (property obj ''exports'') \<noteq> ''object'' \<Longrightarrow>
   pj_exportMap (fst (PackageJson_init host obj fp cond)) = None \<and>
   snd (PackageJson_init host obj fp cond) =
     [LogVerbose ''No 'exports' conditions found in 'package.json'.'']"
  by (simp add: PackageJson_init_def Let_def)

lemma entryPoints_process:
  "entryPoints host obj fp cond =
   pj_entryPoints (fst (process host (fst (PackageJson_init host obj fp cond))))"
  by (simp add: entryPoints_def PackageJson_new_def split: prod.splits)

lemma new_state:
  "fst (PackageJson_new host obj fp cond) =
   fst (process host (fst (PackageJson_init host obj fp cond)))"
  by (simp add: PackageJson_new_def split: prod.splits)

lemma new_logs:
  "snd (PackageJson_new host obj fp cond) =
   snd (PackageJson_init host obj fp cond) @
   snd (process host (fst (PackageJson_init host obj fp cond)))"
  by (simp add: PackageJson_new_def split: prod.splits)

lemma process_exportMap: "pj_exportMap (fst (process host this)) = pj_exportMap this"
proof (cases "exportMap_size_truthy (pj_exportMap this)")
  case True
  then show ?thesis by (simp add: process_def)
next
  case noMap: False
  show ?thesis
  proof (cases "pj_exportCondition this = Str ''types''")
    case False
    with noMap show ?thesis by (simp add: process_other_condition)
  next
    case cond: True
    show ?thesis
    proof (cases "typeof (property (pj_packageObj this) ''types'') = ''string''")
      case True
      then obtain t where "property (pj_packageObj this) ''types'' = Str t"
        using typeof_string by blast
      with noMap cond show ?thesis
        by (cases "isDTSFile host t") (simp_all add: process_types_ok process_types_bad)
    next
      case noTypes: False
      show ?thesis
      proof (cases "typeof (property (pj_packageObj this) ''typings'') = ''string''")
        case True
        then obtain t where "property (pj_packageObj this) ''typings'' = Str t"
          using typeof_string by blast
        with noMap cond noTypes show ?thesis
          by (cases "isDTSFile host t") (simp_all add: process_typings_ok process_typings_bad)
      next
        case False
        with noMap noTypes show ?thesis by (simp add: process_no_candidate)
      qed
    qed
  qed
qed

lemma process_reads:
  assumes "pj_exportMap this' = pj_exportMap this"
      and "pj_exportCondition this' = pj_exportCondition this"
      and "pj_entryPoints this' = pj_entryPoints this"
      and "property (pj_packageObj this') ''types'' = property (pj_packageObj this) ''types''"
      and "property (pj_packageObj this') ''typings'' = property (pj_packageObj this) ''typings''"
  shows "pj_entryPoints (fst (process host this')) = pj_entryPoints (fst (process host this)) \<and>
         snd (process host this') = snd (process host this)"
proof (cases "exportMap_size_truthy (pj_exportMap this)")
  case True
  with assms show ?thesis by (simp add: process_def)
next
  case noMap: False
  then have noMap': "\<not> exportMap_size_truthy (pj_exportMap this')" using assms by simp
  show ?thesis
  proof (cases "pj_exportCondition this = Str ''types''")
    case False
    with noMap noMap' assms show ?thesis by (simp add: process_other_condition)
  next
    case cond: True
    then have cond': "pj_exportCondition this' = Str ''types''" using assms by simp
    show ?thesis
    proof (cases "typeof (property (pj_packageObj this) ''types'') = ''string''")
      case True
      then obtain t where t: "property (pj_packageObj this) ''types'' = Str t"
        using typeof_string by blast
      then have t': "property (pj_packageObj this') ''types'' = Str t" using assms by simp
      show ?thesis
      proof (cases "isDTSFile host t")
        case True
        then show ?thesis
          using process_types_ok [OF noMap cond t] process_types_ok [OF noMap' cond' t'] assms
          by simp
      next
        case False
        then show ?thesis
          using process_types_bad [OF noMap cond t] process_types_bad [OF noMap' cond' t'] assms
          by simp
      qed
    next
      case noTypes: False
      then have noTypes': "typeof (property (pj_packageObj this') ''types'') \<noteq> ''string''"
        using assms by simp
      show ?thesis
      proof (cases "typeof (property (pj_packageObj this) ''typings'') = ''string''")
        case True
        then obtain t where t: "property (pj_packageObj this) ''typings'' = Str t"
          using typeof_string by blast
        then have t': "property (pj_packageObj this') ''typings'' = Str t" using assms by simp
        show ?thesis
        proof (cases "isDTSFile host t")
          case True
          then show ?thesis
            using process_typings_ok [OF noMap cond noTypes t]
              process_typings_ok [OF noMap' cond' noTypes' t'] assms
            by simp
        next
          case False
          then show ?thesis
            using process_typings_bad [OF noMap cond noTypes t]
              process_typings_bad [OF noMap' cond' noTypes' t'] assms
            by simp
        qed
      next
        case False
        then have "typeof (property (pj_packageObj this') ''typings'') \<noteq> ''string''"
          using assms by simp
        with False noMap noMap' noTypes noTypes' assms show ?thesis
          by (simp add: process_no_candidate)
      qed
    qed
  qed
qed

text \<open>
  Claim C1. When \<open>exports\<close> is not of type \<open>object\<close>, the export condition is \<open>types\<close>,
  \<open>types\<close> names a declaration file and \<open>typings\<close> names another one, the entry points
  are exactly the resolution of \<open>types\<close>. The code resolves the path twice, which is the
  same as resolving it once when \<open>path.resolve\<close> leaves its own result unchanged. The
  entry points and the messages of \<open>#process\<close> are given by \<open>types\<close> alone: \<open>typings\<close>
  does not occur in them.
\<close>

theorem types_precedes_typings:
  assumes "typeof (property obj ''exports'') \<noteq> ''object''"
      and "property obj ''types'' = Str t" and "isDTSFile host t"
      and "property obj ''typings'' = Str u" and "isDTSFile host u" and "u \<noteq> t"
      and "path_resolve host (path_resolve host t) = path_resolve host t"
  shows "entryPoints host obj fp (Str ''types'') = [path_resolve host t] \<and>
         snd (process host (fst (PackageJson_init host obj fp (Str ''types'')))) =
           [LogVerbose ''Loading entry point from package.json 'types' property':'',
            LogVerbose (path_resolve host t)]"
proof -
  let ?p = "fst (PackageJson_init host obj fp (Str ''types''))"
  have "\<not> exportMap_size_truthy (pj_exportMap ?p)"
    using assms(1) by (simp add: init_no_object exportMap_size_truthy_def)
  then have "process host ?p =
     (?p\<lparr>pj_entryPoints :=
               Set_add (path_resolve host (path_resolve host t)) (pj_entryPoints ?p)\<rparr>,
      [LogVerbose ''Loading entry point from package.json 'types' property':'',
       LogVerbose (path_resolve host t)])"
    using assms(2,3) by (intro process_types_ok) (simp_all add: init_fields)
  then show ?thesis
    using assms(7) by (simp add: entryPoints_process init_fields Set_add_def)
qed

text \<open>The hypotheses of C1 hold of a manifest with both properties.\<close>

theorem types_precedes_typings_witness:
  "entryPoints sample_pkg_host
     [''name'' \<mapsto> Str ''pkg'', ''types'' \<mapsto> Str ''./dist/index.d.ts'',
      ''typings'' \<mapsto> Str ''./dist/other.d.ts'']
     ''/pkg/package.json'' (Str ''types'') = [''/pkg/dist/index.d.ts'']"
  using types_precedes_typings [of
     "[''name'' \<mapsto> Str ''pkg'', ''types'' \<mapsto> Str ''./dist/index.d.ts'',
       ''typings'' \<mapsto> Str ''./dist/other.d.ts'']"
     "''./dist/index.d.ts''" sample_pkg_host "''./dist/other.d.ts''" "''/pkg/package.json''"]
  by (simp add: property_def sample_pkg_host_def isDTSFile_model_def
      regexIsDTSFile_test_def endsWith_def
      posix_resolve_def)

text \<open>
  Claim C2, as amended. A manifest whose \<open>exports\<close> is a single string gets no export map:
  the string is ignored, and the entry points and the messages are those of the same
  manifest without \<open>exports\<close>, that is, those of the \<open>types\<close>/\<open>typings\<close> fallback.
\<close>

theorem string_exports_ignored:
  assumes "property obj ''exports'' = Str s"
  shows "pj_exportMap (fst (PackageJson_new host obj fp cond)) = None \<and>
         entryPoints host obj fp cond = entryPoints host (obj(''exports'' := None)) fp cond \<and>
         snd (PackageJson_new host obj fp cond) =
           snd (PackageJson_new host (obj(''exports'' := None)) fp cond)"
proof -
  let ?obj' = "obj(''exports'' := None)"
  let ?p = "fst (PackageJson_init host obj fp cond)"
  let ?q = "fst (PackageJson_init host ?obj' fp cond)"
  have no: "typeof (property obj ''exports'') \<noteq> ''object''"
    using assms by simp
  have no': "typeof (property ?obj' ''exports'') \<noteq> ''object''"
    by (simp add: property_def)
  have same: "property ?obj' ''types'' = property obj ''types''"
    "property ?obj' ''typings'' = property obj ''typings''"
    by (simp_all add: property_def)
  have "pj_exportMap (fst (process host ?p)) = None"
    using no by (simp add: process_exportMap init_no_object)
  moreover have "pj_entryPoints (fst (process host ?q)) =
      pj_entryPoints (fst (process host ?p)) \<and>
      snd (process host ?q) = snd (process host ?p)"
    using same no no' by (intro process_reads) (simp_all add: init_fields init_no_object)
  ultimately show ?thesis
    using no no'
    by (simp add: entryPoints_process new_logs new_state init_no_object)
qed

text \<open>A manifest with a string \<open>exports\<close> and the same manifest without it.\<close>

theorem string_exports_ignored_witness:
  "entryPoints sample_pkg_host
     [''exports'' \<mapsto> Str ''./dist/main.d.ts'', ''types'' \<mapsto> Str ''./dist/index.d.ts'']
     ''/pkg/package.json'' (Str ''types'') =
   entryPoints sample_pkg_host [''types'' \<mapsto> Str ''./dist/index.d.ts'']
     ''/pkg/package.json'' (Str ''types'')"
proof -
  have "[''exports'' \<mapsto> Str ''./dist/main.d.ts'', ''types'' \<mapsto> Str ''./dist/index.d.ts'']
          (''exports'' := None) = [''types'' \<mapsto> Str ''./dist/index.d.ts'']"
    by (rule ext) simp
  then show ?thesis
    using string_exports_ignored [of
      "[''exports'' \<mapsto> Str ''./dist/main.d.ts'', ''types'' \<mapsto> Str ''./dist/index.d.ts'']"
      "''./dist/main.d.ts''" sample_pkg_host "''/pkg/package.json''" "Str ''types''"]
    by (simp add: property_def)
qed

text \<open>
  Claim C2 as stated fails: with \<open>exports\<close> set to \<open>./dist/main.d.ts\<close> and nothing else the
  entry points are empty, and with \<open>types\<close> added they are the resolution of \<open>types\<close>; the
  string of \<open>exports\<close> contributes nothing.
\<close>

theorem string_exports_counterexample:
  "entryPoints sample_pkg_host [''exports'' \<mapsto> Str ''./dist/main.d.ts'']
     ''/pkg/package.json'' (Str ''types'') = [] \<and>
   entryPoints sample_pkg_host
     [''exports'' \<mapsto> Str ''./dist/main.d.ts'', ''types'' \<mapsto> Str ''./dist/index.d.ts'']
     ''/pkg/package.json'' (Str ''types'') = [''/pkg/dist/index.d.ts'']"
  by (simp add: property_def entryPoints_def PackageJson_new_def PackageJson_init_def
      process_def exportMap_size_truthy_def sample_pkg_host_def isDTSFile_model_def
      regexIsDTSFile_test_def
      endsWith_def posix_resolve_def Set_add_def Let_def)


text \<open>
  Claim C3, as amended. In the fallback under the condition \<open>types\<close>, the candidate is
  \<open>types\<close> when that is a string and otherwise \<open>typings\<close> when that is a string. A
  candidate that is not a declaration file is reported by a warning naming the property,
  and the entry points stay empty: the candidate is not included.
\<close>

theorem fallback_warns_and_skips:
  assumes "\<not> exportMap_size_truthy
             (pj_exportMap (fst (PackageJson_init host obj fp (Str ''types''))))"
      and "(name = ''types'' \<and> property obj ''types'' = Str c) \<or>
           (name = ''typings'' \<and> typeof (property obj ''types'') \<noteq> ''string'' \<and>
            property obj ''typings'' = Str c)"
      and "\<not> isDTSFile host c"
  shows "LogWarn ([CHR 0x27] @ name @ [CHR 0x27] @
                  '' property in package.json is not a declaration file: '' @ c)
           \<in> set (snd (PackageJson_new host obj fp (Str ''types''))) \<and>
         entryPoints host obj fp (Str ''types'') = []"
proof -
  let ?p = "fst (PackageJson_init host obj fp (Str ''types''))"
  from assms(2) show ?thesis
  proof
    assume a: "name = ''types'' \<and> property obj ''types'' = Str c"
    have "process host ?p =
      (?p, [LogVerbose ''Loading entry point from package.json 'types' property':'',
            LogWarn (CHR 0x27 #
              ''types' property in package.json is not a declaration file: '' @ c)])"
      using assms(1,3) a by (intro process_types_bad) (simp_all add: init_fields)
    with a show ?thesis
      by (simp add: entryPoints_process new_logs init_fields)
  next
    assume a: "name = ''typings'' \<and> typeof (property obj ''types'') \<noteq> ''string'' \<and>
               property obj ''typings'' = Str c"
    have "process host ?p =
      (?p, [LogVerbose ''Loading entry point from package.json 'typings' property':'',
            LogWarn (CHR 0x27 #
              ''typings' property in package.json is not a declaration file: '' @ c)])"
      using assms(1,3) a by (intro process_typings_bad) (simp_all add: init_fields)
    with a show ?thesis
      by (simp add: entryPoints_process new_logs init_fields)
  qed
qed

text \<open>One manifest for each of the two candidates.\<close>

theorem fallback_warns_and_skips_witness:
  "entryPoints sample_pkg_host [''types'' \<mapsto> Str ''./dist/index.js'']
     ''/pkg/package.json'' (Str ''types'') = [] \<and>
   entryPoints sample_pkg_host [''typings'' \<mapsto> Str ''./dist/index.mjs'']
     ''/pkg/package.json'' (Str ''types'') = []"
  using fallback_warns_and_skips [of sample_pkg_host
          "[''types'' \<mapsto> Str ''./dist/index.js'']" "''/pkg/package.json''"
          "''types''" "''./dist/index.js''"]
        fallback_warns_and_skips [of sample_pkg_host
          "[''typings'' \<mapsto> Str ''./dist/index.mjs'']" "''/pkg/package.json''"
          "''typings''" "''./dist/index.mjs''"]
  by (simp add: property_def PackageJson_init_def exportMap_size_truthy_def
      sample_pkg_host_def isDTSFile_model_def regexIsDTSFile_test_def endsWith_def Let_def)

text \<open>
  Claim C3 as stated fails: for \<open>types\<close> set to \<open>./dist/index.js\<close> the warning is logged
  and the entry points are empty.
\<close>

theorem warn_then_include_counterexample:
  "entryPoints sample_pkg_host [''types'' \<mapsto> Str ''./dist/index.js'']
     ''/pkg/package.json'' (Str ''types'') = [] \<and>
   snd (PackageJson_new sample_pkg_host [''types'' \<mapsto> Str ''./dist/index.js'']
     ''/pkg/package.json'' (Str ''types'')) =
     [LogVerbose ''No 'exports' conditions found in 'package.json'.'',
      LogVerbose ''Loading entry point from package.json 'types' property':'',
      LogWarn (CHR 0x27 #
        ''types' property in package.json is not a declaration file: ./dist/index.js'')]"
  by (simp add: property_def entryPoints_def PackageJson_new_def PackageJson_init_def
      process_def exportMap_size_truthy_def sample_pkg_host_def isDTSFile_model_def
      regexIsDTSFile_test_def
      endsWith_def Let_def)

text \<open>
  Claim C10. When there is no export map or an empty one: under the condition \<open>types\<close>, a
  string \<open>types\<close> that is not a declaration file leaves the entry points empty and
  \<open>#process\<close> logs only the two messages about \<open>types\<close>, whatever \<open>typings\<close> holds; and
  under any other condition \<open>#process\<close> adds no entry point and logs nothing.
\<close>

theorem typings_never_second_chance:
  assumes "\<not> exportMap_size_truthy (pj_exportMap (fst (PackageJson_init host obj fp cond)))"
  shows "(cond = Str ''types'' \<and> property obj ''types'' = Str t \<and> \<not> isDTSFile host t \<longrightarrow>
            entryPoints host obj fp cond = [] \<and>
            snd (process host (fst (PackageJson_init host obj fp cond))) =
              [LogVerbose ''Loading entry point from package.json 'types' property':'',
               LogWarn (CHR 0x27 #
                 ''types' property in package.json is not a declaration file: '' @ t)]) \<and>
         (cond \<noteq> Str ''types'' \<longrightarrow>
            entryPoints host obj fp cond = [] \<and>
            snd (process host (fst (PackageJson_init host obj fp cond))) = [])"
proof (intro conjI impI)
  let ?p = "fst (PackageJson_init host obj fp cond)"
  {
    assume a: "cond = Str ''types'' \<and> property obj ''types'' = Str t \<and> \<not> isDTSFile host t"
    have bad: "process host ?p =
      (?p, [LogVerbose ''Loading entry point from package.json 'types' property':'',
            LogWarn (CHR 0x27 #
              ''types' property in package.json is not a declaration file: '' @ t)])"
      using assms a by (intro process_types_bad) (simp_all add: init_fields)
    then show "entryPoints host obj fp cond = []"
      by (simp add: entryPoints_process init_fields)
    from bad show "snd (process host ?p) =
        [LogVerbose ''Loading entry point from package.json 'types' property':'',
         LogWarn (CHR 0x27 #
           ''types' property in package.json is not a declaration file: '' @ t)]"
      by simp
  }
  {
    assume a: "cond \<noteq> Str ''types''"
    have other: "process host ?p = (?p, [])"
      using assms a by (intro process_other_condition) (simp_all add: init_fields)
    then show "entryPoints host obj fp cond = []"
      by (simp add: entryPoints_process init_fields)
    from other show "snd (process host ?p) = []" by simp
  }
qed

text \<open>
  A manifest whose \<open>typings\<close> names a declaration file while \<open>types\<close> does not, and a
  manifest read under the condition \<open>import\<close>.
\<close>

theorem typings_never_second_chance_witness:
  "entryPoints sample_pkg_host
     [''types'' \<mapsto> Str ''./dist/index.js'', ''typings'' \<mapsto> Str ''./dist/index.d.ts'']
     ''/pkg/package.json'' (Str ''types'') = [] \<and>
   entryPoints sample_pkg_host
     [''types'' \<mapsto> Str ''./dist/index.d.ts'', ''typings'' \<mapsto> Str ''./dist/index.d.ts'']
     ''/pkg/package.json'' (Str ''import'') = []"
  using typings_never_second_chance [of sample_pkg_host
          "[''types'' \<mapsto> Str ''./dist/index.js'', ''typings'' \<mapsto> Str ''./dist/index.d.ts'']"
          "''/pkg/package.json''" "Str ''types''" "''./dist/index.js''"]
        typings_never_second_chance [of sample_pkg_host
          "[''types'' \<mapsto> Str ''./dist/index.d.ts'', ''typings'' \<mapsto> Str ''./dist/index.d.ts'']"
          "''/pkg/package.json''" "Str ''import''" "''./dist/index.d.ts''"]
  by (simp add: property_def PackageJson_init_def exportMap_size_truthy_def
      sample_pkg_host_def isDTSFile_model_def regexIsDTSFile_test_def endsWith_def Let_def)

section \<open>Properties of the validation\<close>

text \<open>
  Claim C4. When the TypeScript conversion reports at least one diagnostic,
  \<open>validateCompilerOptions\<close> returns no options and logs one error for every diagnostic,
  in the order reported, each carrying the flattened text of its diagnostic.
\<close>

theorem every_diagnostic_surfaced:
  assumes "errors (convertCompilerOptionsFromJson host compilerOptions (ts_cwd host)) \<noteq> []"
  shows "fst (validateCompilerOptions host compilerOptions) = None \<and>
         snd (validateCompilerOptions host compilerOptions) =
           map (\<lambda>err. LogError (''[TS] '' @
                  flattenDiagnosticMessageText host (messageText err) [CHR 0x0A]))
               (errors (convertCompilerOptionsFromJson host compilerOptions (ts_cwd host)))"
  using assms by (simp add: validateCompilerOptions_def Let_def)

text \<open>Two unknown compiler options give two errors.\<close>

theorem every_diagnostic_surfaced_witness:
  "validateCompilerOptions sample_ts_host
     (Obj [(''strict'', Bool True), (''foo'', Num 1), (''bar'', Null)]) =
   (None, [LogError ''[TS] Unknown compiler option foo'',
           LogError ''[TS] Unknown compiler option bar''])"
proof -
  have e: "errors (convertCompilerOptionsFromJson sample_ts_host
             (Obj [(''strict'', Bool True), (''foo'', Num 1), (''bar'', Null)])
             (ts_cwd sample_ts_host)) =
           [\<lparr>messageText = ''Unknown compiler option foo''\<rparr>,
            \<lparr>messageText = ''Unknown compiler option bar''\<rparr>]"
    by (simp add: sample_ts_host_def)
  show ?thesis
    using every_diagnostic_surfaced [of sample_ts_host
            "Obj [(''strict'', Bool True), (''foo'', Num 1), (''bar'', Null)]"]
    by (simp add: e prod_eq_iff) (simp add: sample_ts_host_def)
qed

lemma accepted_sections:
  assumes "fst (validateConfig host config)"
  shows "\<exists>c0 c1 logs.
           validateConfig_fields config = None \<and>
           validateConfig_path host config = Inr c0 \<and>
           validateConfig_files host c0 = None \<and>
           validateConfig_linkPlugins host c0 = Inr (c1, logs) \<and>
           validateConfig host config = (True, c1, logs)"
  using assms
  by (auto simp: validateConfig_def split: option.splits sum.splits prod.splits)

lemma sections_accepted:
  assumes "validateConfig_fields config = None"
      and "validateConfig_path host config = Inr c0"
      and "validateConfig_files host c0 = None"
  shows "validateConfig host config =
           (case validateConfig_linkPlugins host c0 of
              Inl err \<Rightarrow> (False, c0, [err])
            | Inr (c1, logs) \<Rightarrow> (True, c1, logs))"
  using assms by (simp add: validateConfig_def)

lemma linkPlugins_unset:
  "linkPlugins config = Undefined \<Longrightarrow>
   validateConfig_linkPlugins host config = Inr (config, [])"
  by (simp add: validateConfig_linkPlugins_def)

lemma fold_Set_add:
  "set (fold Set_add xs acc) = set acc \<union> set xs \<and>
   (distinct acc \<longrightarrow> distinct (fold Set_add xs acc))"
  by (induction xs arbitrary: acc) (auto simp: Set_add_def)

lemma Set_from_set: "set (Set_from xs) = set xs"
  by (simp add: Set_from_def fold_Set_add)

lemma Set_from_distinct: "distinct (Set_from xs)"
  by (simp add: Set_from_def fold_Set_add)

lemma linkPlugins_conflict:
  assumes "linkPlugins config = Arr xs"
      and "Str ''dom'' \<in> set xs" and "Str ''worker'' \<in> set xs"
  shows "validateConfig_linkPlugins host config =
     Inl (LogError (''API link error: You may only include either 'dom' or 'worker' '' @
                    ''for the DOM API or Web Worker API.''))"
  using assms by (simp add: validateConfig_linkPlugins_def Set_from_set Let_def)

text \<open>
  Claim C5. A request whose \<open>linkPlugins\<close> is an array holding both \<open>dom\<close> and \<open>worker\<close> is
  never accepted; and when every other section passes, the run ends with exactly the error
  about \<open>dom\<close> and \<open>worker\<close>, whatever the values that made those sections pass.
\<close>

theorem dom_worker_exclusive:
  assumes "linkPlugins config = Arr xs"
      and "Str ''dom'' \<in> set xs" and "Str ''worker'' \<in> set xs"
  shows "\<not> fst (validateConfig host config) \<and>
         (validateConfig_fields config = None \<and>
          validateConfig_path host config = Inr c0 \<and>
          validateConfig_files host c0 = None \<longrightarrow>
          validateConfig host config =
            (False, c0,
             [LogError (''API link error: You may only include either 'dom' or 'worker' '' @
                        ''for the DOM API or Web Worker API.'')]))"
proof (intro conjI impI)
  show "\<not> fst (validateConfig host config)"
  proof
    assume "fst (validateConfig host config)"
    then obtain c0' c1 logs where
      p: "validateConfig_path host config = Inr c0'" and
      l: "validateConfig_linkPlugins host c0' = Inr (c1, logs)"
      using accepted_sections by blast
    from p have "linkPlugins c0' = linkPlugins config"
      by (auto simp: validateConfig_path_def Let_def split: if_splits jsval.splits)
    with assms have "linkPlugins c0' = Arr xs" by simp
    from linkPlugins_conflict [OF this assms(2,3)] l show False by simp
  qed
next
  assume a: "validateConfig_fields config = None \<and>
             validateConfig_path host config = Inr c0 \<and>
             validateConfig_files host c0 = None"
  then have "linkPlugins c0 = linkPlugins config"
    by (auto simp: validateConfig_path_def Let_def split: if_splits jsval.splits)
  with assms have "linkPlugins c0 = Arr xs" by simp
  from linkPlugins_conflict [OF this assms(2,3)] a
  show "validateConfig host config =
          (False, c0,
           [LogError (''API link error: You may only include either 'dom' or 'worker' '' @
                      ''for the DOM API or Web Worker API.'')])"
    by (simp add: sections_accepted)
qed

lemma path_given:
  assumes "path config = Str p"
      and "isFile host (Str (path_toUnix host p))"
      and "regexIsDTSFile_test (path_toUnix host p) \<or> regexAllowedFiles_test (path_toUnix host p) \<or>
           endsWith (path_toUnix host p) ''package.json''"
  shows "validateConfig_path host config = Inr config"
  using assms by (simp add: validateConfig_path_def Let_def)

lemma path_discovered:
  assumes "path config = Undefined"
      and "truthy (packageObj (getPackageWithPath host (process_cwd host) (process_cwd host)))"
  shows "validateConfig_path host config =
     Inr (config\<lparr>path := Str (path_toUnix host
            (filepath (getPackageWithPath host (process_cwd host) (process_cwd host))))\<rparr>)"
  using assms by (simp add: validateConfig_path_def Let_def)

lemma path_not_found:
  assumes "path config = Undefined"
      and "\<not> truthy (packageObj (getPackageWithPath host (process_cwd host) (process_cwd host)))"
  shows "validateConfig_path host config =
     Inl (LogError (''No 'package.json' found in: '' @ path_toUnix host (process_cwd host)))"
  using assms by (simp add: validateConfig_path_def Let_def)

lemma path_Inr_cases:
  assumes "validateConfig_path host config = Inr c0"
  shows "(path config = Undefined \<and>
          truthy (packageObj (getPackageWithPath host (process_cwd host) (process_cwd host))) \<and>
          c0 = config\<lparr>path := Str (path_toUnix host
                 (filepath (getPackageWithPath host (process_cwd host) (process_cwd host))))\<rparr>) \<or>
         (\<exists>p. path config = Str p \<and> isFile host (Str (path_toUnix host p)) \<and>
              (regexIsDTSFile_test (path_toUnix host p) \<or>
               regexAllowedFiles_test (path_toUnix host p) \<or>
               endsWith (path_toUnix host p) ''package.json'') \<and>
              c0 = config)"
proof (cases "path config = Undefined")
  case True
  with assms show ?thesis
    by (cases "truthy (packageObj (getPackageWithPath host (process_cwd host) (process_cwd host)))")
       (simp_all add: path_discovered path_not_found)
next
  case False
  with assms show ?thesis
    by (cases "path config") (simp_all add: validateConfig_path_def Let_def split: if_splits)
qed

text \<open>A request with a manifest in the working directory and both plugins.\<close>

theorem dom_worker_exclusive_witness:
  "validateConfig (sample_cfg_host [''/pkg/package.json''])
     (sample_request\<lparr>linkPlugins := Arr [Str ''esm'', Str ''dom'', Str ''worker'']\<rparr>) =
   (False,
    sample_request\<lparr>linkPlugins := Arr [Str ''esm'', Str ''dom'', Str ''worker''],
                   path := Str ''/pkg/package.json''\<rparr>,
    [LogError (''API link error: You may only include either 'dom' or 'worker' '' @
               ''for the DOM API or Web Worker API.'')])"
proof -
  let ?h = "sample_cfg_host [''/pkg/package.json'']"
  let ?xs = "[Str ''esm'', Str ''dom'', Str ''worker'']"
  let ?c = "sample_request\<lparr>linkPlugins := Arr ?xs\<rparr>"
  let ?d = "?c\<lparr>path := Str ''/pkg/package.json''\<rparr>"
  have fields: "validateConfig_fields ?c = None"
    by (simp add: validateConfig_fields_def sample_request_def)
  have unset: "path ?c = Undefined"
    by (simp add: sample_request_def)
  have found: "truthy (packageObj (getPackageWithPath ?h (process_cwd ?h) (process_cwd ?h)))"
    by (simp add: sample_cfg_host_def)
  have fp: "path_toUnix ?h (filepath (getPackageWithPath ?h (process_cwd ?h) (process_cwd ?h))) =
            ''/pkg/package.json''"
    by (simp add: sample_cfg_host_def)
  have pth: "validateConfig_path ?h ?c = Inr ?d"
    using path_discovered [OF unset found] unfolding fp .
  have files: "validateConfig_files ?h ?d = None"
    by (simp add: validateConfig_files_def sample_request_def)
  have "linkPlugins ?c = Arr ?xs" "Str ''dom'' \<in> set ?xs" "Str ''worker'' \<in> set ?xs"
    by simp_all
  from dom_worker_exclusive [OF this, of ?h ?d] fields pth files
  show ?thesis by blast
qed

text \<open>
  Claim C6. With \<open>path\<close> set to an existing file of an allowed kind, the result does not
  depend on \<open>getPackageWithPath\<close> (no manifest is looked for), and the request is
  accepted with its \<open>path\<close> as given whenever the other sections pass. With \<open>path\<close>
  unset and no manifest in the working directory the request is never accepted, and when
  the four leading checks pass the run ends with the error that no \<open>package.json\<close> was
  found.
\<close>

theorem explicit_path_or_manifest:
  "(path config = Str p \<and> isFile host (Str (path_toUnix host p)) \<and>
    (regexIsDTSFile_test (path_toUnix host p) \<or> regexAllowedFiles_test (path_toUnix host p) \<or>
     endsWith (path_toUnix host p) ''package.json'') \<longrightarrow>
      validateConfig (host\<lparr>getPackageWithPath := g\<rparr>) config = validateConfig host config \<and>
      (validateConfig_fields config = None \<and> validateConfig_files host config = None \<and>
       validateConfig_linkPlugins host config = Inr (c1, logs) \<longrightarrow>
         validateConfig host config = (True, c1, logs) \<and> path c1 = Str p)) \<and>
   (path config = Undefined \<and>
    \<not> truthy (packageObj (getPackageWithPath host (process_cwd host) (process_cwd host))) \<longrightarrow>
      \<not> fst (validateConfig host config) \<and>
      (validateConfig_fields config = None \<longrightarrow>
         validateConfig host config =
           (False, config,
            [LogError (''No 'package.json' found in: '' @
                       path_toUnix host (process_cwd host))])))"
proof (intro conjI impI)
  assume a: "path config = Str p \<and> isFile host (Str (path_toUnix host p)) \<and>
    (regexIsDTSFile_test (path_toUnix host p) \<or> regexAllowedFiles_test (path_toUnix host p) \<or>
     endsWith (path_toUnix host p) ''package.json'')"
  then have here: "validateConfig_path host config = Inr config"
    using path_given [of config p host] by blast
  from a have there: "validateConfig_path (host\<lparr>getPackageWithPath := g\<rparr>) config = Inr config"
    using path_given [of config p "host\<lparr>getPackageWithPath := g\<rparr>"] by simp
  have files: "validateConfig_files (host\<lparr>getPackageWithPath := g\<rparr>) config =
               validateConfig_files host config"
    by (simp add: validateConfig_files_def)
  have links: "validateConfig_linkPlugins (host\<lparr>getPackageWithPath := g\<rparr>) config =
               validateConfig_linkPlugins host config"
    by (simp add: validateConfig_linkPlugins_def Let_def)
  show "validateConfig (host\<lparr>getPackageWithPath := g\<rparr>) config = validateConfig host config"
    by (simp add: validateConfig_def here there files links split: option.splits)
  {
    assume b: "validateConfig_fields config = None \<and> validateConfig_files host config = None \<and>
               validateConfig_linkPlugins host config = Inr (c1, logs)"
    with here show "validateConfig host config = (True, c1, logs)"
      by (simp add: sections_accepted)
    from b have "path c1 = path config"
      by (auto simp: validateConfig_linkPlugins_def Let_def split: if_splits prod.splits)
    with a show "path c1 = Str p" by simp
  }
next
  assume a: "path config = Undefined \<and>
    \<not> truthy (packageObj (getPackageWithPath host (process_cwd host) (process_cwd host)))"
  then have nf: "validateConfig_path host config =
     Inl (LogError (''No 'package.json' found in: '' @ path_toUnix host (process_cwd host)))"
    using path_not_found [of config host] by blast
  show "\<not> fst (validateConfig host config)"
  proof
    assume "fst (validateConfig host config)"
    then obtain c0 where "validateConfig_path host config = Inr c0"
      using accepted_sections by blast
    with nf show False by simp
  qed
  {
    assume "validateConfig_fields config = None"
    with nf show "validateConfig host config =
           (False, config,
            [LogError (''No 'package.json' found in: '' @
                       path_toUnix host (process_cwd host))])"
      by (simp add: validateConfig_def)
  }
qed

text \<open>
  The same host, in which \<open>/pkg/src/index.ts\<close> is the only file: a request naming that
  file, and a request without \<open>path\<close>.
\<close>

theorem explicit_path_or_manifest_witness:
  "validateConfig (sample_cfg_host [''/pkg/src/index.ts''])
     (sample_request\<lparr>path := Str ''/pkg/src/index.ts''\<rparr>) =
     (True, sample_request\<lparr>path := Str ''/pkg/src/index.ts''\<rparr>, []) \<and>
   validateConfig (sample_cfg_host [''/pkg/src/index.ts'']) sample_request =
     (False, sample_request, [LogError ''No 'package.json' found in: /pkg''])"
proof -
  let ?h = "sample_cfg_host [''/pkg/src/index.ts'']"
  let ?c = "sample_request\<lparr>path := Str ''/pkg/src/index.ts''\<rparr>"
  have given: "path ?c = Str ''/pkg/src/index.ts'' \<and>
      isFile ?h (Str (path_toUnix ?h ''/pkg/src/index.ts'')) \<and>
      (regexIsDTSFile_test (path_toUnix ?h ''/pkg/src/index.ts'') \<or>
       regexAllowedFiles_test (path_toUnix ?h ''/pkg/src/index.ts'') \<or>
       endsWith (path_toUnix ?h ''/pkg/src/index.ts'') ''package.json'')"
    by (simp add: sample_cfg_host_def regexAllowedFiles_test_def endsWith_def)
  have rest: "validateConfig_fields ?c = None \<and> validateConfig_files ?h ?c = None \<and>
      validateConfig_linkPlugins ?h ?c = Inr (?c, [])"
    by (simp add: validateConfig_fields_def validateConfig_files_def
        validateConfig_linkPlugins_def sample_request_def)
  have unset: "path sample_request = Undefined \<and>
      \<not> truthy (packageObj (getPackageWithPath ?h (process_cwd ?h) (process_cwd ?h)))"
    by (simp add: sample_request_def sample_cfg_host_def)
  have fields: "validateConfig_fields sample_request = None"
    by (simp add: validateConfig_fields_def sample_request_def)
  have cwd: "path_toUnix ?h (process_cwd ?h) = ''/pkg''"
    by (simp add: sample_cfg_host_def)
  from explicit_path_or_manifest [of ?c "''/pkg/src/index.ts''" ?h
         "getPackageWithPath ?h" ?c "[]"] given rest
  have one: "validateConfig ?h ?c = (True, ?c, [])" by blast
  from explicit_path_or_manifest [of sample_request "[]" ?h "getPackageWithPath ?h"
         sample_request "[]"] unset fields
  have "validateConfig ?h sample_request =
          (False, sample_request,
           [LogError (''No 'package.json' found in: '' @ path_toUnix ?h (process_cwd ?h))])"
    by blast
  with one cwd show ?thesis by simp
qed

lemma files_path_update:
  "validateConfig_files host (config\<lparr>path := v\<rparr>) = validateConfig_files host config"
  by (simp add: validateConfig_files_def)

lemma linkPlugins_loop_eq:
  "linkPlugins_loop lpm entries plugins logs =
     (plugins @ map (\<lambda>e. the (Map_lookup lpm e))
                    (filter (\<lambda>e. Map_lookup lpm e \<noteq> None) entries),
      logs @ map (\<lambda>e. case Map_lookup lpm e of
                    None \<Rightarrow> LogWarn (''API Link warning: Unknown API link '' @ [CHR 0x27] @
                                      toString e @ [CHR 0x27] @ ''.'')
                  | Some module \<Rightarrow> LogVerbose (''Adding API link plugin '' @ [CHR 0x27] @
                                      toString e @ [CHR 0x27] @ '': '' @ module))
                 entries)"
proof (induction entries arbitrary: plugins logs)
  case Nil
  show ?case by simp
next
  case (Cons e entries)
  show ?case
  proof (cases "Map_lookup lpm e")
    case None
    then show ?thesis by (simp add: Cons.IH)
  next
    case (Some module)
    then show ?thesis by (simp add: Cons.IH)
  qed
qed

lemma linkPlugins_translated:
  assumes "linkPlugins config = Arr xs"
      and "\<not> (Str ''dom'' \<in> set xs \<and> Str ''worker'' \<in> set xs)"
  shows "validateConfig_linkPlugins host config =
     Inr (config\<lparr>linkPlugins :=
            Arr (map (\<lambda>e. Str (the (Map_lookup (linkPluginMap host) e)))
                     (filter (\<lambda>e. Map_lookup (linkPluginMap host) e \<noteq> None) (Set_from xs)))\<rparr>,
          map (\<lambda>e. case Map_lookup (linkPluginMap host) e of
                 None \<Rightarrow> LogWarn (''API Link warning: Unknown API link '' @ [CHR 0x27] @
                                   toString e @ [CHR 0x27] @ ''.'')
               | Some module \<Rightarrow> LogVerbose (''Adding API link plugin '' @ [CHR 0x27] @
                                   toString e @ [CHR 0x27] @ '': '' @ module))
              (Set_from xs))"
  using assms
  by (simp add: validateConfig_linkPlugins_def Let_def Set_from_set linkPlugins_loop_eq
      comp_def)


text \<open>
  Claim C7. Let \<open>linkPlugins\<close> be an array of primitive values (which a \<open>Set\<close> compares by
  content) that does not hold both \<open>dom\<close> and \<open>worker\<close>, in a request whose other sections
  pass. Then the request is accepted. Its entries are taken without duplicates (the
  list \<open>Set_from xs\<close> has the members of \<open>xs\<close>, each once); \<open>linkPlugins\<close> becomes the array of the module
  identifiers of the entries found in the registry; and the log has, for every entry in
  turn, a warning when it is not in the registry and a verbose message when it is, and no
  error.
\<close>

theorem unknown_plugins_dropped:
  assumes "linkPlugins config = Arr xs"
      and "list_all primitive xs"
      and "\<not> (Str ''dom'' \<in> set xs \<and> Str ''worker'' \<in> set xs)"
      and "validateConfig_fields config = None"
      and "validateConfig_path host config = Inr c0"
      and "validateConfig_files host c0 = None"
  shows "validateConfig host config =
     (True,
      c0\<lparr>linkPlugins :=
            Arr (map (\<lambda>e. Str (the (Map_lookup (linkPluginMap host) e)))
                     (filter (\<lambda>e. Map_lookup (linkPluginMap host) e \<noteq> None) (Set_from xs)))\<rparr>,
      map (\<lambda>e. case Map_lookup (linkPluginMap host) e of
             None \<Rightarrow> LogWarn (''API Link warning: Unknown API link '' @ [CHR 0x27] @
                               toString e @ [CHR 0x27] @ ''.'')
           | Some module \<Rightarrow> LogVerbose (''Adding API link plugin '' @ [CHR 0x27] @
                               toString e @ [CHR 0x27] @ '': '' @ module))
          (Set_from xs)) \<and>
     distinct (Set_from xs) \<and> set (Set_from xs) = set xs"
proof -
  have "linkPlugins c0 = linkPlugins config"
    using path_Inr_cases [OF assms(5)] by auto
  then have "linkPlugins c0 = Arr xs" using assms(1) by simp
  from linkPlugins_translated [OF this assms(3), of host] assms(4,5,6)
  show ?thesis
    by (simp add: sections_accepted Set_from_distinct Set_from_set)
qed


text \<open>A request that names \<open>dom\<close> twice, \<open>esm\<close> once and an unknown plugin.\<close>

theorem unknown_plugins_dropped_witness:
  "validateConfig (sample_cfg_host [''/pkg/package.json''])
     (sample_request\<lparr>linkPlugins :=
        Arr [Str ''dom'', Str ''nope'', Str ''dom'', Str ''esm'']\<rparr>) =
   (True,
    sample_request\<lparr>path := Str ''/pkg/package.json'',
      linkPlugins :=
        Arr [Str ''@typhonjs-typedoc/ts-lib-docs/typedoc/ts-links/dom/2023'',
             Str ''@typhonjs-typedoc/ts-lib-docs/typedoc/ts-links/esm/2023'']\<rparr>,
    [LogVerbose (''Adding API link plugin 'dom': '' @
                 ''@typhonjs-typedoc/ts-lib-docs/typedoc/ts-links/dom/2023''),
     LogWarn ''API Link warning: Unknown API link 'nope'.'',
     LogVerbose (''Adding API link plugin 'esm': '' @
                 ''@typhonjs-typedoc/ts-lib-docs/typedoc/ts-links/esm/2023'')])"
proof -
  let ?h = "sample_cfg_host [''/pkg/package.json'']"
  let ?xs = "[Str ''dom'', Str ''nope'', Str ''dom'', Str ''esm'']"
  let ?c = "sample_request\<lparr>linkPlugins := Arr ?xs\<rparr>"
  have found: "truthy (packageObj (getPackageWithPath ?h (process_cwd ?h) (process_cwd ?h)))"
    by (simp add: sample_cfg_host_def)
  have fp: "path_toUnix ?h (filepath (getPackageWithPath ?h (process_cwd ?h) (process_cwd ?h))) =
            ''/pkg/package.json''"
    by (simp add: sample_cfg_host_def)
  have h1: "linkPlugins ?c = Arr ?xs" by simp
  have h2: "list_all primitive ?xs" by simp
  have h3: "\<not> (Str ''dom'' \<in> set ?xs \<and> Str ''worker'' \<in> set ?xs)" by simp
  have h4: "validateConfig_fields ?c = None"
    by (simp add: sample_request_def validateConfig_fields_def)
  have h5: "validateConfig_path ?h ?c = Inr (?c\<lparr>path := Str ''/pkg/package.json''\<rparr>)"
    using path_discovered [of ?c ?h] found unfolding fp by (simp add: sample_request_def)
  have h6: "validateConfig_files ?h (?c\<lparr>path := Str ''/pkg/package.json''\<rparr>) = None"
    by (simp add: sample_request_def validateConfig_files_def)
  have lpm: "linkPluginMap ?h = sample_linkPluginMap"
    by (simp add: sample_cfg_host_def)
  have entries: "Set_from ?xs = [Str ''dom'', Str ''nope'', Str ''esm'']"
    by (simp add: Set_from_def Set_add_def)
  from unknown_plugins_dropped [OF h1 h2 h3 h4 h5 h6]
  show ?thesis
    unfolding lpm entries by (simp add: sample_linkPluginMap_def)
qed

lemma fields_update:
  "validateConfig_fields (config\<lparr>path := v\<rparr>) = validateConfig_fields config"
  "validateConfig_fields (config\<lparr>linkPlugins := v\<rparr>) = validateConfig_fields config"
  by (simp_all add: validateConfig_fields_def)

lemma files_linkPlugins_update:
  "validateConfig_files host (config\<lparr>linkPlugins := v\<rparr>) = validateConfig_files host config"
  by (simp add: validateConfig_files_def)

lemma linkPlugins_Inr_cases:
  assumes "validateConfig_linkPlugins host c0 = Inr (c1, logs)"
  shows "(linkPlugins c0 = Undefined \<and> c1 = c0) \<or>
         (\<exists>xs. linkPlugins c0 = Arr xs \<and>
               c1 = c0\<lparr>linkPlugins :=
                 Arr (map (\<lambda>e. Str (the (Map_lookup (linkPluginMap host) e)))
                          (filter (\<lambda>e. Map_lookup (linkPluginMap host) e \<noteq> None)
                                  (Set_from xs)))\<rparr>)"
proof (cases "linkPlugins c0 = Undefined")
  case True
  with assms show ?thesis by (simp add: linkPlugins_unset)
next
  case False
  have "isIterable (linkPlugins c0)"
  proof (rule ccontr)
    assume "\<not> isIterable (linkPlugins c0)"
    with False have "validateConfig_linkPlugins host c0 =
        Inl (LogError ''Error: 'linkPlugins' must be an iterable list.'')"
      by (simp add: validateConfig_linkPlugins_def)
    with assms show False by simp
  qed
  then obtain xs where xs: "linkPlugins c0 = Arr xs"
    by (cases "linkPlugins c0") simp_all
  show ?thesis
  proof (cases "Str ''dom'' \<in> set xs \<and> Str ''worker'' \<in> set xs")
    case True
    with assms xs show ?thesis by (simp add: linkPlugins_conflict)
  next
    case False
    from linkPlugins_translated [OF xs False, of host] assms xs show ?thesis by simp
  qed
qed

lemma known_entry:
  assumes "Map_lookup lpm e = Some m"
  shows "\<exists>k. e = Str k \<and> lpm k = Some m"
  using assms by (cases e) simp_all

lemma retranslated_empty:
  assumes registry: "\<forall>k m. linkPluginMap host k = Some m \<longrightarrow> linkPluginMap host m = None"
      and dom: "linkPluginMap host ''dom'' \<noteq> None"
      and c: "linkPlugins c =
             Arr (map (\<lambda>e. Str (the (Map_lookup (linkPluginMap host) e)))
                      (filter (\<lambda>e. Map_lookup (linkPluginMap host) e \<noteq> None) es))"
  shows "\<exists>logs. validateConfig_linkPlugins host c = Inr (c\<lparr>linkPlugins := Arr []\<rparr>, logs)"
proof -
  let ?lpm = "linkPluginMap host"
  let ?known = "filter (\<lambda>e. Map_lookup ?lpm e \<noteq> None) es"
  let ?ms = "map (\<lambda>e. Str (the (Map_lookup ?lpm e))) ?known"
  have unknown: "Map_lookup ?lpm v = None" if "v \<in> set ?ms" for v
  proof -
    from that obtain e where e: "e \<in> set ?known" and v: "v = Str (the (Map_lookup ?lpm e))"
      by (auto simp only: set_map)
    from e have "Map_lookup ?lpm e \<noteq> None" by simp
    then obtain m where m: "Map_lookup ?lpm e = Some m" by blast
    from known_entry [OF m] obtain k where "?lpm k = Some m" by blast
    with registry have "?lpm m = None" by blast
    with v m show ?thesis by simp
  qed
  have "Str ''dom'' \<notin> set ?ms"
  proof
    assume "Str ''dom'' \<in> set ?ms"
    from unknown [OF this] dom show False by simp
  qed
  then have ok: "\<not> (Str ''dom'' \<in> set ?ms \<and> Str ''worker'' \<in> set ?ms)" by blast
  have none: "filter (\<lambda>e. Map_lookup ?lpm e \<noteq> None) (Set_from ?ms) = []"
  proof (rule iffD2 [OF filter_empty_conv], rule ballI)
    fix v
    assume "v \<in> set (Set_from ?ms)"
    then have "v \<in> set ?ms" by (simp only: Set_from_set)
    then have "Map_lookup ?lpm v = None" by (rule unknown)
    then show "\<not> Map_lookup ?lpm v \<noteq> None" by (simp only: not_not)
  qed
  from linkPlugins_translated [OF c ok, of host]
  have "validateConfig_linkPlugins host c =
     Inr (c\<lparr>linkPlugins := Arr []\<rparr>,
          map (\<lambda>e. case Map_lookup ?lpm e of
                 None \<Rightarrow> LogWarn (''API Link warning: Unknown API link '' @ [CHR 0x27] @
                                   toString e @ [CHR 0x27] @ ''.'')
               | Some module \<Rightarrow> LogVerbose (''Adding API link plugin '' @ [CHR 0x27] @
                                   toString e @ [CHR 0x27] @ '': '' @ module))
              (Set_from ?ms))"
    unfolding none by simp
  then show ?thesis by blast
qed

lemma path_stable:
  assumes p: "validateConfig_path host config = Inr c0"
      and unix: "\<forall>p. path_toUnix host (path_toUnix host p) = path_toUnix host p"
      and manifest:
        "truthy (packageObj (getPackageWithPath host (process_cwd host) (process_cwd host))) \<longrightarrow>
         isFile host (Str (path_toUnix host
           (filepath (getPackageWithPath host (process_cwd host) (process_cwd host))))) \<and>
         endsWith (path_toUnix host
           (filepath (getPackageWithPath host (process_cwd host) (process_cwd host))))
           ''package.json''"
      and c: "path c = path c0"
  shows "validateConfig_path host c = Inr c"
  using path_Inr_cases [OF p]
proof
  assume a: "path config = Undefined \<and>
          truthy (packageObj (getPackageWithPath host (process_cwd host) (process_cwd host))) \<and>
          c0 = config\<lparr>path := Str (path_toUnix host
                 (filepath (getPackageWithPath host (process_cwd host) (process_cwd host))))\<rparr>"
  let ?fp = "path_toUnix host
                 (filepath (getPackageWithPath host (process_cwd host) (process_cwd host)))"
  from a c have "path c = Str ?fp" by simp
  moreover have "isFile host (Str (path_toUnix host ?fp))"
    using a manifest unix by simp
  moreover have "endsWith (path_toUnix host ?fp) ''package.json''"
    using a manifest unix by simp
  ultimately show ?thesis by (simp add: path_given)
next
  assume "\<exists>p. path config = Str p \<and> isFile host (Str (path_toUnix host p)) \<and>
              (regexIsDTSFile_test (path_toUnix host p) \<or>
               regexAllowedFiles_test (path_toUnix host p) \<or>
               endsWith (path_toUnix host p) ''package.json'') \<and>
              c0 = config"
  then obtain p where "path c = Str p" "isFile host (Str (path_toUnix host p))"
     "regexIsDTSFile_test (path_toUnix host p) \<or> regexAllowedFiles_test (path_toUnix host p) \<or>
      endsWith (path_toUnix host p) ''package.json''"
    using c by auto
  then show ?thesis by (rule path_given)
qed

text \<open>
  Claim C8, as amended. Take a host in which (1) \<open>path.toUnix\<close> leaves its own result
  unchanged, (2) the manifest found in the working directory is an existing file whose
  path ends in \<open>package.json\<close>, (3) \<open>dom\<close> is a plugin name of the registry, and (4) no
  module identifier of the registry is itself a plugin name of the registry. Then
  validating again the request left by an accepted validation is accepted too and changes
  no field other than \<open>linkPlugins\<close>; an unset \<open>linkPlugins\<close> stays unset, and a set one
  becomes the empty array, because the module identifiers written by the first run are
  not plugin names and are dropped by the second. By (3) and (4) \<open>dom\<close> is not a module
  identifier, so the second run is not stopped by the test for \<open>dom\<close> with \<open>worker\<close>.
\<close>

theorem revalidation:
  assumes accepted: "fst (validateConfig host config)"
      and unix: "\<forall>p. path_toUnix host (path_toUnix host p) = path_toUnix host p"
      and manifest:
        "truthy (packageObj (getPackageWithPath host (process_cwd host) (process_cwd host))) \<longrightarrow>
         isFile host (Str (path_toUnix host
           (filepath (getPackageWithPath host (process_cwd host) (process_cwd host))))) \<and>
         endsWith (path_toUnix host
           (filepath (getPackageWithPath host (process_cwd host) (process_cwd host))))
           ''package.json''"
      and registry: "\<forall>k m. linkPluginMap host k = Some m \<longrightarrow> linkPluginMap host m = None"
      and dom: "linkPluginMap host ''dom'' \<noteq> None"
      and c1: "c1 = fst (snd (validateConfig host config))"
  shows "\<exists>logs. validateConfig host c1 =
           (True,
            c1\<lparr>linkPlugins := (if linkPlugins c1 = Undefined then Undefined else Arr [])\<rparr>,
            logs)"
proof -
  from accepted obtain c0 c1' logs where
    f: "validateConfig_fields config = None" and
    p: "validateConfig_path host config = Inr c0" and
    fl: "validateConfig_files host c0 = None" and
    l: "validateConfig_linkPlugins host c0 = Inr (c1', logs)" and
    r: "validateConfig host config = (True, c1', logs)"
    using accepted_sections by blast
  from r c1 have [simp]: "c1' = c1" by simp
  have c0: "c0 = config \<or> (\<exists>v. c0 = config\<lparr>path := v\<rparr>)"
    using path_Inr_cases [OF p] by auto
  have c1_c0: "c1 = c0 \<or> (\<exists>v. c1 = c0\<lparr>linkPlugins := v\<rparr>)"
    using linkPlugins_Inr_cases [OF l] by auto
  have f1: "validateConfig_fields c1 = None"
    using f c0 c1_c0 by (auto simp: fields_update)
  have "path c1 = path c0" using c1_c0 by auto
  from path_stable [OF p unix manifest this]
  have p1: "validateConfig_path host c1 = Inr c1" .
  have fl1: "validateConfig_files host c1 = None"
    using fl c1_c0 by (auto simp: files_linkPlugins_update)
  from linkPlugins_Inr_cases [OF l]
  have "\<exists>logs. validateConfig_linkPlugins host c1 =
      Inr (c1\<lparr>linkPlugins := (if linkPlugins c1 = Undefined then Undefined else Arr [])\<rparr>,
           logs)"
  proof
    assume "linkPlugins c0 = Undefined \<and> c1' = c0"
    then have u: "linkPlugins c1 = Undefined" by simp
    then have "c1\<lparr>linkPlugins := Undefined\<rparr> = c1" by (metis GenerateConfig.surjective
          GenerateConfig.update_convs(9))
    with u show ?thesis by (simp add: linkPlugins_unset)
  next
    assume "\<exists>xs. linkPlugins c0 = Arr xs \<and>
               c1' = c0\<lparr>linkPlugins :=
                 Arr (map (\<lambda>e. Str (the (Map_lookup (linkPluginMap host) e)))
                          (filter (\<lambda>e. Map_lookup (linkPluginMap host) e \<noteq> None)
                                  (Set_from xs)))\<rparr>"
    then obtain xs where "linkPlugins c1 =
                 Arr (map (\<lambda>e. Str (the (Map_lookup (linkPluginMap host) e)))
                          (filter (\<lambda>e. Map_lookup (linkPluginMap host) e \<noteq> None)
                                  (Set_from xs)))"
      by auto
    from retranslated_empty [OF registry dom this] this show ?thesis by simp
  qed
  then obtain logs' where "validateConfig_linkPlugins host c1 =
      Inr (c1\<lparr>linkPlugins := (if linkPlugins c1 = Undefined then Undefined else Arr [])\<rparr>,
           logs')" by blast
  with sections_accepted [OF f1 p1 fl1] show ?thesis by simp
qed

lemma sample_manifest:
  "truthy (packageObj (getPackageWithPath (sample_cfg_host [''/pkg/package.json''])
     (process_cwd (sample_cfg_host [''/pkg/package.json'']))
     (process_cwd (sample_cfg_host [''/pkg/package.json''])))) \<and>
   filepath (getPackageWithPath (sample_cfg_host [''/pkg/package.json''])
        (process_cwd (sample_cfg_host [''/pkg/package.json'']))
        (process_cwd (sample_cfg_host [''/pkg/package.json'']))) = ''/pkg/package.json'' \<and>
   isFile (sample_cfg_host [''/pkg/package.json'']) (Str ''/pkg/package.json'') \<and>
   linkPluginMap (sample_cfg_host [''/pkg/package.json'']) = sample_linkPluginMap \<and>
   (\<forall>p. path_toUnix (sample_cfg_host [''/pkg/package.json'']) p = p)"
  by (simp add: sample_cfg_host_def)

lemma sample_registry:
  "(\<forall>k m. sample_linkPluginMap k = Some m \<longrightarrow> sample_linkPluginMap m = None) \<and>
   sample_linkPluginMap ''dom'' \<noteq> None"
  by (simp add: sample_linkPluginMap_def)

lemma sample_first_run:
  "validateConfig (sample_cfg_host [''/pkg/package.json''])
     (sample_request\<lparr>linkPlugins := Arr [Str ''dom'']\<rparr>) =
   (True,
    sample_request\<lparr>linkPlugins :=
        Arr [Str ''@typhonjs-typedoc/ts-lib-docs/typedoc/ts-links/dom/2023''],
      path := Str ''/pkg/package.json''\<rparr>,
    [LogVerbose (''Adding API link plugin 'dom': '' @
                 ''@typhonjs-typedoc/ts-lib-docs/typedoc/ts-links/dom/2023'')])"
proof -
  let ?h = "sample_cfg_host [''/pkg/package.json'']"
  let ?c = "sample_request\<lparr>linkPlugins := Arr [Str ''dom'']\<rparr>"
  have h4: "validateConfig_fields ?c = None"
    by (simp add: sample_request_def validateConfig_fields_def)
  have "path ?c = Undefined" by (simp add: sample_request_def)
  from path_discovered [OF this, of ?h] sample_manifest
  have h5: "validateConfig_path ?h ?c = Inr (?c\<lparr>path := Str ''/pkg/package.json''\<rparr>)"
    by simp
  have h6: "validateConfig_files ?h (?c\<lparr>path := Str ''/pkg/package.json''\<rparr>) = None"
    by (simp add: sample_request_def validateConfig_files_def)
  have entries: "Set_from [Str ''dom''] = [Str ''dom'']"
    by (simp add: Set_from_def Set_add_def)
  have "linkPlugins (?c\<lparr>path := Str ''/pkg/package.json''\<rparr>) = Arr [Str ''dom'']"
       "\<not> (Str ''dom'' \<in> set [Str ''dom''] \<and> Str ''worker'' \<in> set [Str ''dom''])"
    by simp_all
  from linkPlugins_translated [OF this, of ?h] sections_accepted [OF h4 h5 h6] sample_manifest
  show ?thesis
    unfolding entries by (simp add: sample_linkPluginMap_def)
qed

lemma sample_second_run:
  "validateConfig (sample_cfg_host [''/pkg/package.json''])
     (sample_request\<lparr>linkPlugins :=
        Arr [Str ''@typhonjs-typedoc/ts-lib-docs/typedoc/ts-links/dom/2023''],
      path := Str ''/pkg/package.json''\<rparr>) =
   (True,
    sample_request\<lparr>linkPlugins := Arr [], path := Str ''/pkg/package.json''\<rparr>,
    [LogWarn (''API Link warning: Unknown API link '' @ [CHR 0x27] @
              ''@typhonjs-typedoc/ts-lib-docs/typedoc/ts-links/dom/2023'' @ [CHR 0x27] @ ''.'')])"
proof -
  let ?h = "sample_cfg_host [''/pkg/package.json'']"
  let ?m = "''@typhonjs-typedoc/ts-lib-docs/typedoc/ts-links/dom/2023''"
  let ?c = "sample_request\<lparr>linkPlugins := Arr [Str ?m], path := Str ''/pkg/package.json''\<rparr>"
  have h4: "validateConfig_fields ?c = None"
    by (simp add: sample_request_def validateConfig_fields_def)
  have "path ?c = Str ''/pkg/package.json''" by simp
  moreover have "isFile ?h (Str (path_toUnix ?h ''/pkg/package.json''))"
    using sample_manifest by simp
  moreover have "endsWith (path_toUnix ?h ''/pkg/package.json'') ''package.json''"
    using sample_manifest by (simp add: endsWith_def)
  ultimately have h5: "validateConfig_path ?h ?c = Inr ?c"
    by (simp add: path_given)
  have h6: "validateConfig_files ?h ?c = None"
    by (simp add: sample_request_def validateConfig_files_def)
  have entries: "Set_from [Str ?m] = [Str ?m]"
    by (simp add: Set_from_def Set_add_def)
  have "linkPlugins ?c = Arr [Str ?m]"
       "\<not> (Str ''dom'' \<in> set [Str ?m] \<and> Str ''worker'' \<in> set [Str ?m])"
    by simp_all
  from linkPlugins_translated [OF this, of ?h] sections_accepted [OF h4 h5 h6] sample_manifest
  show ?thesis
    unfolding entries by (simp add: sample_linkPluginMap_def)
qed

text \<open>The request left by validating a request for the plugin \<open>dom\<close>, validated again.\<close>

theorem revalidation_witness:
  "\<exists>logs. validateConfig (sample_cfg_host [''/pkg/package.json''])
     (sample_request\<lparr>linkPlugins :=
        Arr [Str ''@typhonjs-typedoc/ts-lib-docs/typedoc/ts-links/dom/2023''],
      path := Str ''/pkg/package.json''\<rparr>) =
   (True, sample_request\<lparr>linkPlugins := Arr [], path := Str ''/pkg/package.json''\<rparr>, logs)"
proof -
  let ?h = "sample_cfg_host [''/pkg/package.json'']"
  let ?c = "sample_request\<lparr>linkPlugins := Arr [Str ''dom'']\<rparr>"
  let ?r = "sample_request\<lparr>linkPlugins :=
        Arr [Str ''@typhonjs-typedoc/ts-lib-docs/typedoc/ts-links/dom/2023''],
      path := Str ''/pkg/package.json''\<rparr>"
  have accepted: "fst (validateConfig ?h ?c)"
    by (simp add: sample_first_run)
  have unix: "\<forall>p. path_toUnix ?h (path_toUnix ?h p) = path_toUnix ?h p"
    using sample_manifest by simp
  have manifest:
    "truthy (packageObj (getPackageWithPath ?h (process_cwd ?h) (process_cwd ?h))) \<longrightarrow>
     isFile ?h (Str (path_toUnix ?h
       (filepath (getPackageWithPath ?h (process_cwd ?h) (process_cwd ?h))))) \<and>
     endsWith (path_toUnix ?h
       (filepath (getPackageWithPath ?h (process_cwd ?h) (process_cwd ?h)))) ''package.json''"
    using sample_manifest by (simp add: endsWith_def)
  have registry: "\<forall>k m. linkPluginMap ?h k = Some m \<longrightarrow> linkPluginMap ?h m = None"
    using sample_manifest sample_registry by simp
  have dom: "linkPluginMap ?h ''dom'' \<noteq> None"
    using sample_manifest sample_registry by simp
  have r: "?r = fst (snd (validateConfig ?h ?c))"
    by (simp add: sample_first_run)
  from revalidation [OF accepted unix manifest registry dom r]
  show ?thesis by (simp add: sample_request_def)
qed

text \<open>
  Claim C8 as stated fails: a request for the plugin \<open>dom\<close> is accepted with \<open>linkPlugins\<close>
  holding the module identifier of \<open>dom\<close>; validating that result again is accepted with
  \<open>linkPlugins\<close> empty.
\<close>

theorem revalidation_counterexample:
  "fst (validateConfig (sample_cfg_host [''/pkg/package.json''])
          (sample_request\<lparr>linkPlugins := Arr [Str ''dom'']\<rparr>)) \<and>
   linkPlugins (fst (snd (validateConfig (sample_cfg_host [''/pkg/package.json''])
          (sample_request\<lparr>linkPlugins := Arr [Str ''dom'']\<rparr>)))) =
     Arr [Str ''@typhonjs-typedoc/ts-lib-docs/typedoc/ts-links/dom/2023''] \<and>
   fst (validateConfig (sample_cfg_host [''/pkg/package.json''])
          (fst (snd (validateConfig (sample_cfg_host [''/pkg/package.json''])
             (sample_request\<lparr>linkPlugins := Arr [Str ''dom'']\<rparr>))))) \<and>
   linkPlugins (fst (snd (validateConfig (sample_cfg_host [''/pkg/package.json''])
          (fst (snd (validateConfig (sample_cfg_host [''/pkg/package.json''])
             (sample_request\<lparr>linkPlugins := Arr [Str ''dom'']\<rparr>))))))) = Arr []"
  by (simp add: sample_first_run sample_second_run)

end
